theory Spec2Isabelle
  imports Main "HOL-Library.AList"
begin

section \<open>ippdu: scraping and switching the outlets of a networked power-distribution unit\<close>

text \<open>
  A shallow embedding of \<^verbatim>\<open>ippdu.py\<close>. Python values are modelled as follows.
  \<^item> \<^verbatim>\<open>str\<close> is \<^typ>\<open>string\<close>: a character is a code point below 256, and the
    command line and the documents of the device are taken to hold such characters only.
    The character classes and mappings below are Python's on these code points.
    \<^verbatim>\<open>upper()\<close> leads out of that range, so its result is a list of code points.
  \<^item> \<^verbatim>\<open>int\<close> is \<^typ>\<open>int\<close>.
  \<^item> A \<^verbatim>\<open>dict\<close> is an association list with distinct keys in insertion order;
    \<^verbatim>\<open>d[k] = v\<close> is \<^const>\<open>AList.update\<close> (an existing key keeps its position).
  \<^item> A raised exception is the left summand of the result.
  \<^item> The command line (\<^verbatim>\<open>build_cli\<close>, \<^verbatim>\<open>main\<close>) is not part of the model.
  \<^item> The libraries the program calls (\<^verbatim>\<open>requests\<close>, the HTML parser behind
    \<^verbatim>\<open>BeautifulSoup\<close>, \<^verbatim>\<open>ElementTree.fromstring\<close>, the browser) are
    parameters; the trees they return are datatypes and the tree operations the program
    calls on them (\<^verbatim>\<open>find_all\<close>, \<^verbatim>\<open>find_parent\<close>, \<^verbatim>\<open>get_text\<close>,
    \<^verbatim>\<open>get\<close>) are defined on those datatypes.
\<close>

subsection \<open>Exceptions\<close>

text \<open>
  \<^verbatim>\<open>ValueError\<close> carries the message the program gives it. \<open>IntValueError\<close> is the
  \<^verbatim>\<open>ValueError\<close> that \<^verbatim>\<open>int()\<close> raises, with the string that was to be converted;
  the wording of its message is left out.
\<close>

datatype error =
    ValueError string
  | IntValueError string
  | AttributeError string
  | IndexError
  | KeyError int
  | ParseError
  | RequestException
  | HTTPError int

subsection \<open>Python string operations\<close>

definition dq :: char where
  "dq = CHR 0x22"

text \<open>\<^verbatim>\<open>c.isdecimal()\<close>, which is also what \<^verbatim>\<open>\d\<close> matches: the digits 0 to 9.\<close>

definition is_decimal :: "char \<Rightarrow> bool" where
  "is_decimal c = (48 \<le> (of_char c :: nat) \<and> (of_char c :: nat) \<le> 57)"

text \<open>\<^verbatim>\<open>c.isdigit()\<close>: the digits 0 to 9 and the superscripts two, three and one.\<close>

definition is_digit :: "char \<Rightarrow> bool" where
  "is_digit c = (is_decimal c \<or> (of_char c :: nat) = 0xB2 \<or> (of_char c :: nat) = 0xB3
     \<or> (of_char c :: nat) = 0xB9)"

text \<open>
  The capital letters, which \<^verbatim>\<open>lower()\<close> changes: A to Z and U+00C0 to U+00DE without
  the multiplication sign. The small letter is 32 above.
\<close>

definition is_upper :: "char \<Rightarrow> bool" where
  "is_upper c = ((65 \<le> (of_char c :: nat) \<and> (of_char c :: nat) \<le> 90)
     \<or> (0xC0 \<le> (of_char c :: nat) \<and> (of_char c :: nat) \<le> 0xD6)
     \<or> (0xD8 \<le> (of_char c :: nat) \<and> (of_char c :: nat) \<le> 0xDE))"

text \<open>
  The small letters whose capital is 32 below: a to z and U+00E0 to U+00FE without the
  division sign.
\<close>

definition is_lower :: "char \<Rightarrow> bool" where
  "is_lower c = ((97 \<le> (of_char c :: nat) \<and> (of_char c :: nat) \<le> 122)
     \<or> (0xE0 \<le> (of_char c :: nat) \<and> (of_char c :: nat) \<le> 0xF6)
     \<or> (0xF8 \<le> (of_char c :: nat) \<and> (of_char c :: nat) \<le> 0xFE))"

text \<open>
  \<^verbatim>\<open>c.isspace()\<close>, the characters \<^verbatim>\<open>strip()\<close> removes: TAB, LF, VT, FF, CR, FS, GS,
  RS, US, SPACE, NEL (U+0085) and the no-break space (U+00A0).
\<close>

definition is_space :: "char \<Rightarrow> bool" where
  "is_space c = ((9 \<le> (of_char c :: nat) \<and> (of_char c :: nat) \<le> 13)
     \<or> (28 \<le> (of_char c :: nat) \<and> (of_char c :: nat) \<le> 32)
     \<or> (of_char c :: nat) = 0x85 \<or> (of_char c :: nat) = 0xA0)"

definition to_lower :: "char \<Rightarrow> char" where
  "to_lower c = (if is_upper c then char_of ((of_char c :: nat) + 32) else c)"

text \<open>
  A string of any code points, and a \<^typ>\<open>string\<close> as such a string.
\<close>

type_synonym ustring = "nat list"

definition ustr :: "string \<Rightarrow> ustring" where
  "ustr s = map of_char s"

text \<open>
  The capital of a character, as code points: the sharp s becomes \<^verbatim>\<open>SS\<close>, the capitals
  of U+00FF and of the micro sign are U+0178 and U+039C.
\<close>

definition to_upper :: "char \<Rightarrow> ustring" where
  "to_upper c =
     (if is_lower c then [(of_char c :: nat) - 32]
      else if (of_char c :: nat) = 0xDF then [0x53, 0x53]
      else if (of_char c :: nat) = 0xFF then [0x178]
      else if (of_char c :: nat) = 0xB5 then [0x39C]
      else [of_char c])"

text \<open>\<^verbatim>\<open>s.lower()\<close>, \<^verbatim>\<open>s.upper()\<close>\<close>

definition str_lower :: "string \<Rightarrow> string" where
  "str_lower s = map to_lower s"

definition str_upper :: "string \<Rightarrow> ustring" where
  "str_upper s = concat (map to_upper s)"

text \<open>\<^verbatim>\<open>s.isdigit()\<close>: at least one character, and all of them digits.\<close>

definition str_isdigit :: "string \<Rightarrow> bool" where
  "str_isdigit s = (s \<noteq> [] \<and> list_all is_digit s)"

text \<open>\<^verbatim>\<open>s.isdecimal()\<close>: at least one character, and all of them digits 0 to 9.\<close>

definition str_isdecimal :: "string \<Rightarrow> bool" where
  "str_isdecimal s = (s \<noteq> [] \<and> list_all is_decimal s)"

text \<open>\<^verbatim>\<open>s.strip()\<close>\<close>

definition str_strip :: "string \<Rightarrow> string" where
  "str_strip s = rev (dropWhile is_space (rev (dropWhile is_space s)))"

text \<open>\<^verbatim>\<open>s.lstrip(chars)\<close>: removes every leading character that occurs in \<open>chars\<close>.\<close>

fun str_lstrip :: "string \<Rightarrow> string \<Rightarrow> string" where
  "str_lstrip [] chars = []"
| "str_lstrip (c # cs) chars = (if c \<in> set chars then str_lstrip cs chars else c # cs)"

text \<open>\<^verbatim>\<open>s.startswith(p)\<close>\<close>

definition str_startswith :: "string \<Rightarrow> string \<Rightarrow> bool" where
  "str_startswith s p = (take (length p) s = p)"

text \<open>
  \<^verbatim>\<open>s.replace(old, new)\<close>: every non-overlapping occurrence of \<open>old\<close>, from the
  left, is replaced; an empty \<open>old\<close> matches before every character and at the end.
\<close>

function str_replace :: "string \<Rightarrow> string \<Rightarrow> string \<Rightarrow> string" where
  "str_replace s old new =
     (if old = [] then new @ concat (map (\<lambda>c. c # new) s)
      else if s = [] then []
      else if take (length old) s = old then new @ str_replace (drop (length old) s) old new
      else hd s # str_replace (tl s) old new)"
  by pat_completeness auto
termination
  by (relation "measure (\<lambda>(s, old, new). length s)") (auto simp: neq_Nil_conv)

declare str_replace.simps [simp del]

subsection \<open>Conversions between integers and decimal text\<close>

definition digit_val :: "char \<Rightarrow> int" where
  "digit_val c = int (of_char c) - 48"

definition digits_value :: "string \<Rightarrow> int" where
  "digits_value s = foldl (\<lambda>a c. 10 * a + digit_val c) 0 s"

text \<open>The digit groups Python's \<^verbatim>\<open>int\<close> accepts: digits, with single underscores between digits.\<close>

fun digit_groups :: "string \<Rightarrow> bool" where
  "digit_groups [] = False"
| "digit_groups [c] = is_decimal c"
| "digit_groups (c # d # r) =
     (is_decimal c \<and> (if d = CHR ''_'' then digit_groups r else digit_groups (d # r)))"

text \<open>
  The whitespace \<^verbatim>\<open>int()\<close> passes over before and after the number: TAB, LF, VT, FF, CR,
  SPACE, NEL and the no-break space, but not FS, GS, RS and US.
\<close>

definition is_int_space :: "char \<Rightarrow> bool" where
  "is_int_space c = ((9 \<le> (of_char c :: nat) \<and> (of_char c :: nat) \<le> 13)
     \<or> (of_char c :: nat) = 32 \<or> (of_char c :: nat) = 0x85 \<or> (of_char c :: nat) = 0xA0)"

definition int_strip :: "string \<Rightarrow> string" where
  "int_strip s = rev (dropWhile is_int_space (rev (dropWhile is_int_space s)))"

text \<open>\<^verbatim>\<open>sys.get_int_max_str_digits()\<close>, which the program leaves at its default.\<close>

definition int_max_str_digits :: nat where
  "int_max_str_digits = 4300"

text \<open>
  \<^verbatim>\<open>int(s)\<close> in base 10: surrounding whitespace is passed over, then come an optional
  sign and digit groups. Anything else raises \<^verbatim>\<open>ValueError\<close>, and so does a number of
  more digits than the limit (the zeros in front count, the underscores do not).
\<close>

definition py_int :: "string \<Rightarrow> error + int" where
  "py_int s =
     (let t = int_strip s;
          neg = (t \<noteq> [] \<and> hd t = CHR ''-'');
          body = (if t \<noteq> [] \<and> (hd t = CHR ''-'' \<or> hd t = CHR ''+'') then tl t else t);
          digits = filter (\<lambda>c. c \<noteq> CHR ''_'') body
      in if digit_groups body \<and> length digits \<le> int_max_str_digits
         then Inr ((if neg then - 1 else 1) * digits_value digits)
         else Inl (IntValueError s))"

text \<open>\<^verbatim>\<open>str(n)\<close> for an integer, as an f-string renders it.\<close>

fun str_nat :: "nat \<Rightarrow> string" where
  "str_nat n =
     (if n < 10 then [char_of (48 + n)] else str_nat (n div 10) @ [char_of (48 + n mod 10)])"

declare str_nat.simps [simp del]

definition str_int :: "int \<Rightarrow> string" where
  "str_int i = (if i < 0 then CHR ''-'' # str_nat (nat (- i)) else str_nat (nat i))"

text \<open>\<^verbatim>\<open>str(xs)\<close> for a list of integers: \<^verbatim>\<open>[1, 2, 3]\<close>.\<close>

fun join :: "string \<Rightarrow> string list \<Rightarrow> string" where
  "join sep [] = []"
| "join sep [x] = x"
| "join sep (x # y # ys) = x @ sep @ join sep (y # ys)"

definition str_int_list :: "int list \<Rightarrow> string" where
  "str_int_list xs = ''['' @ join '', '' (map str_int xs) @ '']''"

subsection \<open>Outlet resolution\<close>

text \<open>A row of the table is the tuple \<^verbatim>\<open>(number, name, state)\<close>.\<close>

type_synonym outlet = "int \<times> string \<times> ustring"

definition number :: "outlet \<Rightarrow> int" where
  "number r = fst r"

definition name :: "outlet \<Rightarrow> string" where
  "name r = fst (snd r)"

definition state :: "outlet \<Rightarrow> ustring" where
  "state r = snd (snd r)"

text \<open>
  \<^verbatim>\<open>resolve_outlet(arg, table)\<close>, lines 149 to 167. The three \<^verbatim>\<open>raise\<close> statements raise
  \<^verbatim>\<open>ValueError\<close> with the message built here.
\<close>

definition resolve_outlet :: "string \<Rightarrow> outlet list \<Rightarrow> error + int" where
  "resolve_outlet arg table =
     (if str_isdigit arg then
        (case py_int arg of
           Inl e \<Rightarrow> Inl e
         | Inr num \<Rightarrow>
             if list_ex (\<lambda>(n, _, _). num = n) table then Inr num
             else Inl (ValueError (''Outlet number '' @ str_int num @ '' not present.'')))
      else
        (let matches = map fst (filter (\<lambda>(n, name, _). str_lower name = str_lower arg) table)
         in if length matches = 1 then Inr (matches ! 0)
            else if length matches > 1 then
              Inl (ValueError (''Multiple outlets named '' @ [dq] @ arg @ [dq]
                     @ ''. Specify the number instead. Matches: '' @ str_int_list matches))
            else Inl (ValueError (''No outlet named '' @ [dq] @ arg @ [dq] @ '' found.''))))"

subsection \<open>Enumerations\<close>

text \<open>\<^verbatim>\<open>class OutletOperation(Enum)\<close>, lines 48 to 52: \<^verbatim>\<open>ON = "0"\<close>, \<^verbatim>\<open>OFF = "1"\<close>.\<close>

datatype OutletOperation = ON | OFF

text \<open>\<^verbatim>\<open>op.value\<close>: the code the firmware understands.\<close>

fun op_value :: "OutletOperation \<Rightarrow> string" where
  "op_value ON = ''0''"
| "op_value OFF = ''1''"

subsection \<open>HTTP fetch\<close>

record response =
  status_code :: int
  rtext :: string

type_synonym http_get = "string \<Rightarrow> string \<times> string \<Rightarrow> int \<Rightarrow> error + response"

text \<open>
  \<^verbatim>\<open>fetch(base_url, path, auth, timeout)\<close>, lines 60 to 65. \<^verbatim>\<open>requests.get\<close> is the
  parameter \<open>get_url\<close>: it returns a response or fails. The URL of the request is
  \<^verbatim>\<open>f"{base_url}/{path.lstrip('/')}"\<close>.
\<close>

definition fetch_url :: "string \<Rightarrow> string \<Rightarrow> string" where
  "fetch_url base_url path = base_url @ ''/'' @ str_lstrip path ''/''"

text \<open>\<^verbatim>\<open>r.raise_for_status()\<close> raises for the status codes 400 to 599.\<close>

definition raise_for_status :: "response \<Rightarrow> error + unit" where
  "raise_for_status r =
     (if 400 \<le> status_code r \<and> status_code r < 600 then Inl (HTTPError (status_code r))
      else Inr ())"

definition fetch :: "http_get \<Rightarrow> string \<Rightarrow> string \<Rightarrow> string \<times> string \<Rightarrow> int \<Rightarrow> error + string" where
  "fetch get_url base_url path auth timeout =
     (case get_url (fetch_url base_url path) auth timeout of
        Inl e \<Rightarrow> Inl e
      | Inr r \<Rightarrow> (case raise_for_status r of Inl e \<Rightarrow> Inl e | Inr _ \<Rightarrow> Inr (rtext r)))"

subsection \<open>The parsed HTML document and the operations called on it\<close>

text \<open>
  A node of the parse tree is a tag with its attributes and contents, a piece of text, or
  a string \<^verbatim>\<open>get_text\<close> leaves out (a comment). A document is the list of its
  top-level nodes.
\<close>

datatype node =
    Tag (tname: string) (attrs: "(string \<times> string) list") (contents: "node list")
  | NavigableString string
  | Comment string

text \<open>
  The nodes at and below a node in document order, each with its ancestors (the nearest
  first).
\<close>

fun walk :: "node list \<Rightarrow> node \<Rightarrow> (node list \<times> node) list" where
  "walk anc (Tag t a cs) = (anc, Tag t a cs) # concat (map (walk (Tag t a cs # anc)) cs)"
| "walk anc (NavigableString s) = [(anc, NavigableString s)]"
| "walk anc (Comment s) = [(anc, Comment s)]"

definition descendants :: "node list \<Rightarrow> node list \<Rightarrow> (node list \<times> node) list" where
  "descendants anc cs = concat (map (walk anc) cs)"

text \<open>\<^verbatim>\<open>tag.get(key, default)\<close>\<close>

fun get :: "node \<Rightarrow> string \<Rightarrow> string \<Rightarrow> string" where
  "get (Tag t a cs) key dflt = (case map_of a key of None \<Rightarrow> dflt | Some v \<Rightarrow> v)"
| "get _ key dflt = dflt"

text \<open>
  \<^verbatim>\<open>find_all(name, attrs)\<close>: the tags below the start, in document order, that have
  the name and each of the attribute values asked for.
\<close>

fun tag_matches :: "string \<Rightarrow> (string \<times> string) list \<Rightarrow> node \<Rightarrow> bool" where
  "tag_matches nm flt (Tag t a cs) = (t = nm \<and> list_all (\<lambda>(k, v). map_of a k = Some v) flt)"
| "tag_matches nm flt _ = False"

definition find_all :: "node list \<Rightarrow> node list \<Rightarrow> string \<Rightarrow> (string \<times> string) list
    \<Rightarrow> (node list \<times> node) list" where
  "find_all anc cs nm flt = filter (\<lambda>(a, n). tag_matches nm flt n) (descendants anc cs)"

text \<open>\<^verbatim>\<open>tag.find_parent(name)\<close>, on the ancestors of the tag: \<open>None\<close> when there is none.\<close>

definition find_parent :: "node list \<Rightarrow> string \<Rightarrow> node option" where
  "find_parent anc nm = List.find (\<lambda>p. tag_matches nm [] p) anc"

text \<open>
  \<^verbatim>\<open>tag.get_text()\<close> joins the pieces of text below the tag;
  \<^verbatim>\<open>tag.get_text(strip=True)\<close> strips each piece first and leaves out the empty ones.
\<close>

fun text_of :: "node list \<times> node \<Rightarrow> string list" where
  "text_of (a, NavigableString s) = [s]"
| "text_of (a, _) = []"

definition strings :: "node \<Rightarrow> string list" where
  "strings t = (case t of Tag nm a cs \<Rightarrow> concat (map text_of (descendants [] cs)) | _ \<Rightarrow> [])"


definition get_text_strip :: "node \<Rightarrow> string" where
  "get_text_strip t = concat (filter (\<lambda>s. s \<noteq> []) (map str_strip (strings t)))"

subsection \<open>Outlet names from the control page\<close>

text \<open>
  \<^verbatim>\<open>_RX_CHECKBOX.fullmatch(s)\<close> for the pattern \<^verbatim>\<open>outlet(\d+)$\<close>: the literal, then
  digits as far as they go, and the match has to end where the string ends. The result is
  group 1.
\<close>

definition rx_checkbox_fullmatch :: "string \<Rightarrow> string option" where
  "rx_checkbox_fullmatch s =
     (if str_startswith s ''outlet'' then
        (let rest = drop (length ''outlet'') s; ds = takeWhile is_decimal rest
         in if ds \<noteq> [] \<and> dropWhile is_decimal rest = [] then Some ds else None)
      else None)"

type_synonym 'v dict = "(int \<times> 'v) list"

text \<open>
  \<^verbatim>\<open>parse_names(html)\<close>, lines 71 to 88. The loop runs over the checkboxes found, each
  with its ancestors; \<^verbatim>\<open>tr\<close> is \<^verbatim>\<open>None\<close> when no ancestor is a row, and
  \<^verbatim>\<open>None.find_all\<close> raises \<^verbatim>\<open>AttributeError\<close>; \<^verbatim>\<open>[0]\<close> of an empty result raises
  \<^verbatim>\<open>IndexError\<close>. The HTML parser is the parameter \<open>html_parser\<close>.
\<close>

fun parse_names_loop :: "(node list \<times> node) list \<Rightarrow> string dict \<Rightarrow> error + string dict" where
  "parse_names_loop [] names = Inr names"
| "parse_names_loop ((anc, cb) # rest) names =
     (case rx_checkbox_fullmatch (get cb ''name'' '''') of
        None \<Rightarrow> parse_names_loop rest names
      | Some grp \<Rightarrow>
          (case py_int grp of
             Inl e \<Rightarrow> Inl e
           | Inr num \<Rightarrow>
               (case find_parent anc ''tr'' of
                  None \<Rightarrow> Inl (AttributeError ''find_all'')
                | Some tr \<Rightarrow>
                    (case find_all [] (contents tr) ''td'' [] of
                       [] \<Rightarrow> Inl IndexError
                     | (_, td) # _ \<Rightarrow>
                         parse_names_loop rest (AList.update num (get_text_strip td) names)))))"

definition parse_names :: "(string \<Rightarrow> node list) \<Rightarrow> string \<Rightarrow> error + string dict" where
  "parse_names html_parser html =
     (let soup = html_parser html
      in parse_names_loop (find_all [] soup ''input'' [(''type'', ''checkbox'')]) [])"

subsection \<open>Outlet states from the status document\<close>

text \<open>
  An element of the parsed XML document: its tag, its text (\<^verbatim>\<open>None\<close> for an element
  without text) and its child elements.
\<close>

datatype element = Element (etag: string) (etext: "string option") (children: "element list")

text \<open>
  \<^verbatim>\<open>parse_status(xml_text)\<close>, lines 91 to 102. \<^verbatim>\<open>ET.fromstring\<close> is the parameter
  \<open>fromstring\<close>: it returns the root element or fails. The loop runs over the children of
  the root; \<^verbatim>\<open>None.strip()\<close> raises \<^verbatim>\<open>AttributeError\<close>.
\<close>

fun parse_status_loop :: "element list \<Rightarrow> ustring dict \<Rightarrow> error + ustring dict" where
  "parse_status_loop [] states = Inr states"
| "parse_status_loop (elem # rest) states =
     (if str_startswith (etag elem) ''outletStat'' then
        (case py_int (str_replace (etag elem) ''outletStat'' '''') of
           Inl e \<Rightarrow> Inl e
         | Inr num \<Rightarrow>
             (case etext elem of
                None \<Rightarrow> Inl (AttributeError ''strip'')
              | Some t \<Rightarrow>
                  parse_status_loop rest (AList.update num (str_upper (str_strip t)) states)))
      else parse_status_loop rest states)"

definition parse_status :: "(string \<Rightarrow> error + element) \<Rightarrow> string \<Rightarrow> error + ustring dict" where
  "parse_status fromstring xml_text =
     (case fromstring xml_text of
        Inl e \<Rightarrow> Inl e
      | Inr root \<Rightarrow> parse_status_loop (children root) [])"

subsection \<open>The outlet directory\<close>

text \<open>
  \<^verbatim>\<open>list_outlets(base_url, auth, timeout)\<close>, lines 105 to 113. The comprehension
  \<^verbatim>\<open>[(n, names[n], stats.get(n, "(unknown)")) for n in sorted(names)]\<close> runs over the
  sorted keys; \<^verbatim>\<open>names[n]\<close> raises \<^verbatim>\<open>KeyError\<close> for a missing key.
\<close>

fun directory_rows :: "string dict \<Rightarrow> ustring dict \<Rightarrow> int list \<Rightarrow> error + outlet list" where
  "directory_rows names stats [] = Inr []"
| "directory_rows names stats (n # ns) =
     (case map_of names n of
        None \<Rightarrow> Inl (KeyError n)
      | Some nm \<Rightarrow>
          (case directory_rows names stats ns of
             Inl e \<Rightarrow> Inl e
           | Inr rows \<Rightarrow>
               Inr ((n, nm, (case map_of stats n of None \<Rightarrow> ustr ''(unknown)'' | Some s \<Rightarrow> s)) # rows)))"

definition list_outlets :: "http_get \<Rightarrow> (string \<Rightarrow> node list) \<Rightarrow> (string \<Rightarrow> error + element)
    \<Rightarrow> string \<Rightarrow> string \<times> string \<Rightarrow> int \<Rightarrow> error + outlet list" where
  "list_outlets get_url html_parser fromstring base_url auth timeout =
     (case fetch get_url base_url ''control_outlet.htm'' auth timeout of
        Inl e \<Rightarrow> Inl e
      | Inr html \<Rightarrow>
     (case parse_names html_parser html of
        Inl e \<Rightarrow> Inl e
      | Inr names \<Rightarrow>
     (case fetch get_url base_url ''status.xml'' auth timeout of
        Inl e \<Rightarrow> Inl e
      | Inr xml \<Rightarrow>
     (case parse_status fromstring xml of
        Inl e \<Rightarrow> Inl e
      | Inr stats \<Rightarrow> directory_rows names stats (sort (map fst names))))))"

subsection \<open>Setting the relay state\<close>

text \<open>
  \<^verbatim>\<open>set_outlet(base_url, outlet, op, auth, timeout)\<close>, lines 121 to 141: the query of
  line 130, and what the browser is asked to do, in order.
\<close>

datatype browser_action =
    Launch bool
  | NewContext string string
  | SetDefaultNavigationTimeout int
  | NewPage
  | Goto string int
  | Click string
  | Close

definition set_outlet_query :: "int \<Rightarrow> OutletOperation \<Rightarrow> string" where
  "set_outlet_query outlet op = ''outlet'' @ str_int outlet @ ''=1&op='' @ op_value op @ ''&submit=Apply''"

definition set_outlet :: "string \<Rightarrow> int \<Rightarrow> OutletOperation \<Rightarrow> string \<times> string \<Rightarrow> int
    \<Rightarrow> browser_action list" where
  "set_outlet base_url outlet op auth timeout =
     (let query = set_outlet_query outlet op
      in [Launch True,
          NewContext (fst auth) (snd auth),
          SetDefaultNavigationTimeout (timeout * 1000),
          NewPage,
          Goto (base_url @ ''/control_outlet.htm?'' @ query) (timeout * 1000),
          Click (''input[name='' @ [CHR 0x27] @ ''submit'' @ [CHR 0x27] @ ''][value=''
                 @ [CHR 0x27] @ ''Apply'' @ [CHR 0x27] @ '']''),
          Close])"

section \<open>Notions of the specification\<close>

subsection \<open>Case-insensitive exact match\<close>

text \<open>
  Two characters are the same letter when they are equal or one is the capital of the
  other; a token matches a name exactly when they have the same letters, position by
  position.
\<close>

definition same_letter :: "char \<Rightarrow> char \<Rightarrow> bool" where
  "same_letter c d = (c = d
     \<or> (is_upper c \<and> (of_char d :: nat) = of_char c + 32)
     \<or> (is_upper d \<and> (of_char c :: nat) = of_char d + 32))"

definition caseless_eq :: "string \<Rightarrow> string \<Rightarrow> bool" where
  "caseless_eq a b = list_all2 same_letter a b"

text \<open>The records of a directory whose name matches a token.\<close>

definition matching :: "string \<Rightarrow> outlet list \<Rightarrow> outlet list" where
  "matching token directory = filter (\<lambda>r. caseless_eq (name r) token) directory"

subsection \<open>Decimal text\<close>

text \<open>
  The integer a decimal text denotes: an optional minus sign, then one digit or more from 0
  to 9.
\<close>

definition decimal_value :: "string \<Rightarrow> int option" where
  "decimal_value s =
     (if str_isdecimal s then Some (digits_value s)
      else if s \<noteq> [] \<and> hd s = CHR ''-'' \<and> str_isdecimal (tl s) then Some (- digits_value (tl s))
      else None)"

subsection \<open>Stripping a single leading slash\<close>


subsection \<open>What the two documents describe\<close>

text \<open>
  The entries of the status document: for each top-level element whose tag begins with
  \<^verbatim>\<open>outletStat\<close>, the number that is left when exactly that prefix is taken off the
  tag, with the text of the element, trimmed and in capitals.
\<close>

fun status_entries :: "element list \<Rightarrow> ustring dict" where
  "status_entries [] = []"
| "status_entries (e # es) =
     (if str_startswith (etag e) ''outletStat'' then
        (case (py_int (drop (length ''outletStat'') (etag e)), etext e) of
           (Inr n, Some t) \<Rightarrow> (n, str_upper (str_strip t)) # status_entries es
         | _ \<Rightarrow> status_entries es)
      else status_entries es)"

text \<open>What follows \<^verbatim>\<open>outlet\<close> in a checkbox name.\<close>

definition outlet_digits :: "string \<Rightarrow> string" where
  "outlet_digits nm = drop (length ''outlet'') nm"

text \<open>
  The outlet number of a checkbox name: the name is \<^verbatim>\<open>outlet\<close> followed by digits 0 to
  9 and nothing else.
\<close>

definition outlet_number :: "string \<Rightarrow> int option" where
  "outlet_number nm =
     (if str_startswith nm ''outlet'' \<and> str_isdecimal (drop (length ''outlet'') nm)
      then Some (digits_value (drop (length ''outlet'') nm)) else None)"



section \<open>Sample documents\<close>

text \<open>
  Documents of the kind the device serves, each as its text and as the tree the parser
  returns for it, and stand-ins for the parsers and the HTTP client that know exactly these
  documents.
\<close>

subsection \<open>Status documents\<close>

definition status_xml :: string where
  "status_xml = ''<response><pot0>1</pot0><outletStat0> on </outletStat0><outletStat1>off</outletStat1></response>''"

definition status_root :: element where
  "status_root = Element ''response'' None
     [Element ''pot0'' (Some ''1'') [],
      Element ''outletStat0'' (Some '' on '') [],
      Element ''outletStat1'' (Some ''off'') []]"

text \<open>An element without text: its \<^verbatim>\<open>text\<close> is \<^verbatim>\<open>None\<close>.\<close>

definition empty_xml :: string where
  "empty_xml = ''<response><outletStat0>on</outletStat0><outletStat1/></response>''"

definition empty_root :: element where
  "empty_root = Element ''response'' None
     [Element ''outletStat0'' (Some ''on'') [], Element ''outletStat1'' None []]"

text \<open>A tag in which the prefix occurs a second time.\<close>

definition repeated_xml :: string where
  "repeated_xml = ''<response><outletStat1outletStat2>on</outletStat1outletStat2></response>''"

definition repeated_root :: element where
  "repeated_root = Element ''response'' None [Element ''outletStat1outletStat2'' (Some ''on'') []]"

text \<open>A tag that goes on after the prefix with letters.\<close>

definition word_xml :: string where
  "word_xml = ''<response><outletStatus>ok</outletStatus></response>''"

definition word_root :: element where
  "word_root = Element ''response'' None [Element ''outletStatus'' (Some ''ok'') []]"

definition sample_fromstring :: "string \<Rightarrow> error + element" where
  "sample_fromstring s =
     (if s = status_xml then Inr status_root
      else if s = empty_xml then Inr empty_root
      else if s = repeated_xml then Inr repeated_root
      else if s = word_xml then Inr word_root
      else Inl ParseError)"

subsection \<open>Control pages\<close>

text \<open>A row of the control page: the cell with the name, then the cell with the checkbox.\<close>

definition control_row :: "node list \<Rightarrow> string \<Rightarrow> node" where
  "control_row cell box =
     Tag ''tr'' []
       [Tag ''td'' [] cell,
        Tag ''td'' [] [Tag ''input'' [(''type'', ''checkbox''), (''name'', box)] []]]"

definition control_html :: string where
  "control_html = ''<table><tr><td> Lamp </td><td><input type=checkbox name=outlet3></td></tr><tr><td>Fan</td><td><input type=checkbox name=outlet1></td></tr><tr><td>All</td><td><input type=checkbox name=outlet_check_all></td></tr></table>''"

definition control_page :: "node list" where
  "control_page =
     [Tag ''table'' []
        [control_row [NavigableString '' Lamp ''] ''outlet3'',
         control_row [NavigableString ''Fan''] ''outlet1'',
         control_row [NavigableString ''All''] ''outlet_check_all'']]"

text \<open>A name cell whose text comes in two pieces.\<close>

definition split_cell_html :: string where
  "split_cell_html = ''<tr><td>Rack <b>A</b></td><td><input type=checkbox name=outlet1></td></tr>''"

definition split_cell :: node where
  "split_cell = Tag ''td'' [] [NavigableString ''Rack '', Tag ''b'' [] [NavigableString ''A'']]"

definition split_cell_page :: "node list" where
  "split_cell_page =
     [Tag ''tr'' []
        [split_cell,
         Tag ''td'' [] [Tag ''input'' [(''type'', ''checkbox''), (''name'', ''outlet1'')] []]]]"

text \<open>A row of header cells only.\<close>

definition headed_html :: string where
  "headed_html = ''<tr><th>Lamp</th><th><input type=checkbox name=outlet3></th></tr>''"

definition headed_page :: "node list" where
  "headed_page =
     [Tag ''tr'' []
        [Tag ''th'' [] [NavigableString ''Lamp''],
         Tag ''th'' [] [Tag ''input'' [(''type'', ''checkbox''), (''name'', ''outlet3'')] []]]]"

text \<open>A checkbox outside any table.\<close>

definition bare_html :: string where
  "bare_html = ''<div>Lamp<input type=checkbox name=outlet3></div>''"

definition bare_page :: "node list" where
  "bare_page =
     [Tag ''div'' []
        [NavigableString ''Lamp'',
         Tag ''input'' [(''type'', ''checkbox''), (''name'', ''outlet3'')] []]]"

definition sample_html_parser :: "string \<Rightarrow> node list" where
  "sample_html_parser s =
     (if s = control_html then control_page
      else if s = split_cell_html then split_cell_page
      else if s = headed_html then headed_page
      else if s = bare_html then bare_page
      else [])"





subsection \<open>A device\<close>

definition sample_get :: http_get where
  "sample_get url auth timeout =
     (if url = ''http://pdu/control_outlet.htm'' then Inr \<lparr>status_code = 200, rtext = control_html\<rparr>
      else if url = ''http://pdu/status.xml'' then Inr \<lparr>status_code = 200, rtext = status_xml\<rparr>
      else Inr \<lparr>status_code = 404, rtext = ''''\<rparr>)"

section \<open>Properties\<close>

subsection \<open>Characters and decimal text\<close>

lemma decimal_is_digit: "is_decimal c \<Longrightarrow> is_digit c"
  by (simp add: is_digit_def)

lemma decimal_not_int_space: "is_decimal c \<Longrightarrow> \<not> is_int_space c"
  by (auto simp: is_decimal_def is_int_space_def)

lemma digit_not_int_space: "is_digit c \<Longrightarrow> \<not> is_int_space c"
  by (auto simp: is_digit_def is_decimal_def is_int_space_def)

lemma digit_not_sign:
  "is_digit c \<Longrightarrow> c \<noteq> CHR ''-'' \<and> c \<noteq> CHR ''+'' \<and> c \<noteq> CHR ''_''"
  by (auto simp: is_digit_def is_decimal_def)

lemma int_strip_id:
  assumes "s \<noteq> []" "\<not> is_int_space (hd s)" "\<not> is_int_space (last s)"
  shows "int_strip s = s"
proof -
  from assms(1,2) have front: "dropWhile is_int_space s = s"
    by (cases s) auto
  from assms(1,3) have rear: "dropWhile is_int_space (rev s) = rev s"
    by (cases s rule: rev_cases) auto
  show ?thesis
    by (simp add: int_strip_def front rear)
qed

lemma digit_groups_digits: "s \<noteq> [] \<Longrightarrow> list_all is_decimal s \<Longrightarrow> digit_groups s"
  by (induction s rule: digit_groups.induct) (auto dest: decimal_is_digit [THEN digit_not_sign])

lemma digit_groups_chars: "digit_groups b \<Longrightarrow> c \<in> set b \<Longrightarrow> is_decimal c \<or> c = CHR ''_''"
  by (induction b rule: digit_groups.induct) (auto split: if_splits)

lemma filter_digits: "list_all is_decimal s \<Longrightarrow> filter (\<lambda>c. c \<noteq> CHR ''_'') s = s"
  by (induction s) (auto dest: decimal_is_digit [THEN digit_not_sign])

text \<open>
  A string of digits (\<^verbatim>\<open>isdigit\<close>) is left as it is by the first steps of \<^const>\<open>py_int\<close>:
  there is no whitespace to pass over and no sign.
\<close>

lemma py_int_of_digits:
  assumes "str_isdigit s"
  shows "py_int s =
     (if digit_groups s \<and> length (filter (\<lambda>c. c \<noteq> CHR ''_'') s) \<le> int_max_str_digits
      then Inr (digits_value (filter (\<lambda>c. c \<noteq> CHR ''_'') s)) else Inl (IntValueError s))"
proof -
  from assms have ne: "s \<noteq> []" and ad: "list_all is_digit s"
    by (auto simp: str_isdigit_def)
  from ne ad have first: "is_digit (hd s)"
    by (cases s) auto
  from ne ad have "is_digit (last s)"
    by (cases s rule: rev_cases) auto
  with first have "int_strip s = s"
    using int_strip_id [OF ne] digit_not_int_space by blast
  then show ?thesis
    using ne digit_not_sign [OF first] by (simp add: py_int_def Let_def)
qed

text \<open>
  On a string of the digits 0 to 9, \<^const>\<open>py_int\<close> is the decimal value when the digits are no
  more than the limit, and fails otherwise.
\<close>

lemma py_int_decimal:
  assumes "str_isdecimal s"
  shows "py_int s =
     (if length s \<le> int_max_str_digits then Inr (digits_value s) else Inl (IntValueError s))"
proof -
  from assms have ne: "s \<noteq> []" and ad: "list_all is_decimal s"
    by (auto simp: str_isdecimal_def)
  from ad have "str_isdigit s"
    using ne by (auto simp: str_isdigit_def list_all_iff decimal_is_digit)
  from py_int_of_digits [OF this] show ?thesis
    using digit_groups_digits [OF ne ad] by (simp add: filter_digits [OF ad])
qed

text \<open>A string of digits among which is a superscript is not read by \<^const>\<open>py_int\<close>.\<close>

lemma py_int_superscript:
  assumes "str_isdigit s" "\<not> str_isdecimal s"
  shows "py_int s = Inl (IntValueError s)"
proof -
  from assms obtain c where c: "c \<in> set s" "\<not> is_decimal c" "is_digit c"
    by (auto simp: str_isdigit_def str_isdecimal_def list_all_iff)
  then have "c \<noteq> CHR ''_''"
    using digit_not_sign by blast
  with c have "\<not> digit_groups s"
    using digit_groups_chars by blast
  with py_int_of_digits [OF assms(1)] show ?thesis
    by simp
qed

lemma is_decimal_char_of: "d < 10 \<Longrightarrow> is_decimal (char_of (48 + d :: nat))"
  by (simp add: is_decimal_def)

lemma digit_val_char_of: "d < 10 \<Longrightarrow> digit_val (char_of (48 + d :: nat)) = int d"
  by (simp add: digit_val_def)

lemma str_nat_digits: "str_isdecimal (str_nat n)"
proof (induction n rule: str_nat.induct)
  case (1 n)
  show ?case
  proof (cases "n < 10")
    case True
    then show ?thesis
      by (subst str_nat.simps) (simp add: str_isdecimal_def is_decimal_char_of)
  next
    case False
    with 1 show ?thesis
      by (subst str_nat.simps) (simp add: str_isdecimal_def is_decimal_char_of)
  qed
qed

lemma digits_value_snoc: "digits_value (s @ [c]) = 10 * digits_value s + digit_val c"
  by (simp add: digits_value_def)

lemma digits_value_str_nat: "digits_value (str_nat n) = int n"
proof (induction n rule: str_nat.induct)
  case (1 n)
  show ?case
  proof (cases "n < 10")
    case True
    then show ?thesis
      by (subst str_nat.simps) (simp add: digits_value_def digit_val_char_of)
  next
    case False
    with 1 have "digits_value (str_nat (n div 10)) = int (n div 10)"
      by simp
    with False show ?thesis
      by (subst str_nat.simps) (simp add: digits_value_snoc digit_val_char_of zdiv_int zmod_int)
  qed
qed

text \<open>The decimal text of an integer denotes the integer.\<close>

lemma decimal_value_str_int: "decimal_value (str_int i) = Some i"
proof (cases "i < 0")
  case False
  then show ?thesis
    by (simp add: decimal_value_def str_int_def str_nat_digits digits_value_str_nat)
next
  case True
  have "\<not> str_isdecimal (CHR ''-'' # str_nat (nat (- i)))"
    by (simp add: str_isdecimal_def is_decimal_def)
  with True show ?thesis
    by (simp add: decimal_value_def str_int_def str_nat_digits digits_value_str_nat)
qed

text \<open>Where the digits are no more than the limit, \<^const>\<open>py_int\<close> reads the text back.\<close>

lemma py_int_str_int:
  assumes "0 \<le> i" "length (str_int i) \<le> int_max_str_digits"
  shows "py_int (str_int i) = Inr i"
  using assms py_int_decimal [OF str_nat_digits, of "nat i"]
  by (simp add: str_int_def digits_value_str_nat)

lemma str_isdecimal_replicate: "0 < n \<Longrightarrow> is_decimal c \<Longrightarrow> str_isdecimal (replicate n c)"
  by (auto simp: str_isdecimal_def list_all_iff)

lemma digits_value_zeros: "digits_value (replicate n (CHR ''0'')) = 0"
proof (induction n)
  case 0
  then show ?case
    by (simp add: digits_value_def)
next
  case (Suc n)
  have "replicate (Suc n) (CHR ''0'') = replicate n (CHR ''0'') @ [CHR ''0'']"
    by (simp add: replicate_append_same)
  with Suc show ?case
    by (simp only: digits_value_snoc) (simp add: digit_val_def)
qed

subsection \<open>Case-insensitive comparison\<close>

lemma of_char_to_lower:
  "(of_char (to_lower c) :: nat) = (if is_upper c then of_char c + 32 else of_char c)"
  by (auto simp: to_lower_def is_upper_def)

lemma to_lower_eq_iff: "to_lower c = to_lower d \<longleftrightarrow> same_letter c d"
proof -
  have "to_lower c = to_lower d \<longleftrightarrow> (of_char (to_lower c) :: nat) = of_char (to_lower d)"
    by simp
  also have "\<dots> \<longleftrightarrow> same_letter c d"
    unfolding of_char_to_lower same_letter_def by (auto simp: is_upper_def)
  finally show ?thesis .
qed

text \<open>Comparing the lower-cased strings is the case-insensitive exact match.\<close>

lemma str_lower_eq_iff: "str_lower a = str_lower b \<longleftrightarrow> caseless_eq a b"
proof (induction a arbitrary: b)
  case Nil
  then show ?case
    by (simp add: str_lower_def caseless_eq_def)
next
  case (Cons c cs)
  then show ?case
    by (cases b) (simp_all add: str_lower_def caseless_eq_def to_lower_eq_iff)
qed

lemma caseless_eq_length: "caseless_eq a b \<Longrightarrow> length a = length b"
  by (simp add: caseless_eq_def list_all2_lengthD)

subsection \<open>Outlet resolution\<close>

lemma matches_eq:
  "map fst (filter (\<lambda>(n, name, _). str_lower name = str_lower arg) table)
     = map number (matching arg table)"
  by (induction table) (auto simp: matching_def number_def name_def str_lower_eq_iff)

lemma list_ex_number: "list_ex (\<lambda>(n, _, _). num = n) table \<longleftrightarrow> num \<in> number ` set table"
  by (induction table) (auto simp: number_def)

text \<open>
  The branch for names. A token that \<^verbatim>\<open>isdigit()\<close> rejects is compared, without regard to
  case and in full, with the name of every record. With no matching record the resolution
  fails and the error names the token; with exactly one it is that record's number; with
  more than one it fails and the error lists the number of every matching record. A
  matching name has the length of the token, so a prefix never matches.
\<close>

lemma resolve_outlet_name_branch:
  assumes "\<not> str_isdigit token"
  shows "(matching token directory = [] \<longrightarrow>
            resolve_outlet token directory =
              Inl (ValueError (''No outlet named '' @ [dq] @ token @ [dq] @ '' found.'')))
       \<and> (\<forall>r. matching token directory = [r] \<longrightarrow>
            resolve_outlet token directory = Inr (number r))
       \<and> (length (matching token directory) > 1 \<longrightarrow>
            resolve_outlet token directory =
              Inl (ValueError (''Multiple outlets named '' @ [dq] @ token @ [dq]
                     @ ''. Specify the number instead. Matches: ''
                     @ str_int_list (map number (matching token directory)))))
       \<and> (\<forall>r \<in> set (matching token directory). length (name r) = length token)"
  using assms
  by (auto simp: resolve_outlet_def matches_eq Let_def matching_def dest: caseless_eq_length)

text \<open>
  The branch for numbers. A token that \<^verbatim>\<open>isdigit()\<close> accepts is given to \<^verbatim>\<open>int()\<close>,
  which reads it when it is made of no more digits 0 to 9 than the limit, and raises
  otherwise; the names of the records play no part.
\<close>

lemma resolve_outlet_number_branch:
  assumes "str_isdigit token"
  shows "resolve_outlet token directory =
     (if str_isdecimal token \<and> length token \<le> int_max_str_digits then
        (if digits_value token \<in> number ` set directory then Inr (digits_value token)
         else Inl (ValueError (''Outlet number '' @ str_int (digits_value token) @ '' not present.'')))
      else Inl (IntValueError token))"
proof (cases "str_isdecimal token")
  case True
  with assms show ?thesis
    by (simp add: resolve_outlet_def py_int_decimal list_ex_number)
next
  case False
  with assms show ?thesis
    by (simp add: resolve_outlet_def py_int_superscript)
qed

text \<open>
  C1 does not hold of the program. The token made of the superscript two is not made of
  decimal digits, and the directory has exactly one outlet of that name, number 2. The
  program does not compare names: \<^verbatim>\<open>isdigit()\<close> accepts the superscript, the token goes
  to \<^verbatim>\<open>int()\<close>, and \<^verbatim>\<open>int()\<close> raises.
\<close>

theorem resolve_outlet_superscript_token:
  "\<not> str_isdecimal [CHR 0xB2]
   \<and> str_isdigit [CHR 0xB2]
   \<and> matching [CHR 0xB2] [(1, ''lamp'', ustr ''ON''), (2, [CHR 0xB2], ustr ''OFF'')]
       = [(2, [CHR 0xB2], ustr ''OFF'')]
   \<and> resolve_outlet [CHR 0xB2] [(1, ''lamp'', ustr ''ON''), (2, [CHR 0xB2], ustr ''OFF'')]
       = Inl (IntValueError [CHR 0xB2])"
  by code_simp

text \<open>
  C2, as the program has it. A token of one digit or more from 0 to 9, and of no more
  digits than the limit of \<^verbatim>\<open>int()\<close>, is read as a number. The resolution is that number
  when a record of the directory has it; otherwise it fails and the error names the number.
  The names of the records play no part, so a record named like the token is not found
  through its name.
\<close>

theorem resolve_outlet_by_number:
  assumes "str_isdecimal token"
    and "length token \<le> int_max_str_digits"
  shows "resolve_outlet token directory =
     (if digits_value token \<in> number ` set directory then Inr (digits_value token)
      else Inl (ValueError (''Outlet number '' @ str_int (digits_value token) @ '' not present.'')))
     \<and> (\<forall>r \<in> set directory. name r = token \<and> digits_value token \<notin> number ` set directory
          \<longrightarrow> resolve_outlet token directory \<noteq> Inr (number r))"
proof -
  from assms(1) have "str_isdigit token"
    by (auto simp: str_isdigit_def str_isdecimal_def list_all_iff decimal_is_digit)
  from resolve_outlet_number_branch [OF this] assms show ?thesis
    by auto
qed

theorem resolve_outlet_by_number_witness:
  "str_isdecimal ''2''
   \<and> length ''2'' \<le> int_max_str_digits
   \<and> resolve_outlet ''2'' [(1, ''lamp'', ustr ''ON''), (2, ''server'', ustr ''OFF'')] = Inr 2
   \<and> resolve_outlet ''2'' [(5, ''2'', ustr ''ON'')] = Inl (ValueError ''Outlet number 2 not present.'')"
proof -
  have token: "str_isdecimal ''2''"
    by code_simp
  have short: "length ''2'' \<le> int_max_str_digits"
    by (simp add: int_max_str_digits_def)
  have v: "digits_value ''2'' = 2"
    by code_simp
  have s: "str_int 2 = ''2''"
    by code_simp
  from resolve_outlet_by_number
    [OF token short, of "[(1, ''lamp'', ustr ''ON''), (2, ''server'', ustr ''OFF'')]"]
  have "resolve_outlet ''2'' [(1, ''lamp'', ustr ''ON''), (2, ''server'', ustr ''OFF'')] = Inr 2"
    by (simp add: v number_def)
  moreover
  from resolve_outlet_by_number [OF token short, of "[(5, ''2'', ustr ''ON'')]"]
  have "resolve_outlet ''2'' [(5, ''2'', ustr ''ON'')] = Inl (ValueError ''Outlet number 2 not present.'')"
    by (simp add: v s number_def)
  ultimately show ?thesis
    using token short by simp
qed

text \<open>
  C2, as it is stated, fails. The token of 4301 zeros is made of decimal digits only and
  outlet 0 is in the directory, yet the resolution is not 0: \<^verbatim>\<open>int()\<close> raises, since the
  token has more digits than the limit. And the empty token, which has no character that is
  not a decimal digit, is resolved through a name.
\<close>

theorem resolve_outlet_by_number_counterexample:
  "str_isdecimal (replicate 4301 (CHR ''0''))
   \<and> digits_value (replicate 4301 (CHR ''0'')) = 0
   \<and> resolve_outlet (replicate 4301 (CHR ''0'')) [(0, ''lamp'', ustr ''ON'')]
       = Inl (IntValueError (replicate 4301 (CHR ''0'')))
   \<and> resolve_outlet (replicate 4301 (CHR ''0'')) [(0, ''lamp'', ustr ''ON'')] \<noteq> Inr 0
   \<and> resolve_outlet [] [(7, [], ustr ''ON'')] = Inr 7"
proof -
  have zeros: "str_isdecimal (replicate 4301 (CHR ''0''))"
    by (rule str_isdecimal_replicate) (simp_all add: is_decimal_def)
  then have "str_isdigit (replicate 4301 (CHR ''0''))"
    by (auto simp: str_isdigit_def str_isdecimal_def list_all_iff decimal_is_digit)
  from resolve_outlet_number_branch [OF this, of "[(0, ''lamp'', ustr ''ON'')]"]
  have long: "resolve_outlet (replicate 4301 (CHR ''0'')) [(0, ''lamp'', ustr ''ON'')]
       = Inl (IntValueError (replicate 4301 (CHR ''0'')))"
    by (simp add: int_max_str_digits_def)
  have empty: "resolve_outlet [] [(7, [], ustr ''ON'')] = Inr 7"
    by code_simp
  from zeros long empty show ?thesis
    by (simp add: digits_value_zeros)
qed

subsection \<open>The query of the relay command\<close>

text \<open>
  C7. The query built for outlet \<open>N\<close> and an operation is
  \<^verbatim>\<open>outlet<N>=1&op=<code>&submit=Apply\<close>, where \<^verbatim>\<open><N>\<close> is the decimal text of \<open>N\<close>
  (the text denotes \<open>N\<close>) and the code is \<^verbatim>\<open>0\<close> for ON and \<^verbatim>\<open>1\<close> for OFF; the
  browser is sent to the control page with that query.
\<close>

theorem set_outlet_query_wire_code:
  "set_outlet_query n ON = ''outlet'' @ str_int n @ ''=1&op=0&submit=Apply''
   \<and> set_outlet_query n OFF = ''outlet'' @ str_int n @ ''=1&op=1&submit=Apply''
   \<and> decimal_value (str_int n) = Some n
   \<and> Goto (base_url @ ''/control_outlet.htm?'' @ set_outlet_query n op) (timeout * 1000)
       \<in> set (set_outlet base_url n op auth timeout)"
  by (simp add: set_outlet_query_def set_outlet_def decimal_value_str_int)

subsection \<open>The URL of a fetch\<close>





subsection \<open>Outlet states from the status document\<close>

lemma set_int_strip: "set s \<subseteq> {c. is_int_space c} \<union> set (int_strip s)"
proof -
  let ?u = "dropWhile is_int_space s"
  have "set s = set (takeWhile is_int_space s) \<union> set ?u"
    by (metis set_append takeWhile_dropWhile_id)
  moreover have "set ?u = set (takeWhile is_int_space (rev ?u)) \<union> set (dropWhile is_int_space (rev ?u))"
    by (metis set_append set_rev takeWhile_dropWhile_id)
  moreover have "set (takeWhile is_int_space s) \<subseteq> {c. is_int_space c}"
    "set (takeWhile is_int_space (rev ?u)) \<subseteq> {c. is_int_space c}"
    by (auto dest: set_takeWhileD)
  ultimately show ?thesis
    by (auto simp: int_strip_def)
qed

text \<open>A string that \<^const>\<open>py_int\<close> accepts has only whitespace, signs, digits and underscores.\<close>

lemma py_int_chars:
  assumes "py_int s = Inr n" "c \<in> set s"
  shows "is_int_space c \<or> is_decimal c \<or> c = CHR ''_'' \<or> c = CHR ''-'' \<or> c = CHR ''+''"
proof -
  let ?t = "int_strip s"
  let ?body = "if ?t \<noteq> [] \<and> (hd ?t = CHR ''-'' \<or> hd ?t = CHR ''+'') then tl ?t else ?t"
  from assms(1) have groups: "digit_groups ?body"
    by (auto simp: py_int_def Let_def split: if_splits)
  from assms(2) set_int_strip have "is_int_space c \<or> c \<in> set ?t"
    by auto
  moreover have "c \<in> set ?t \<Longrightarrow> c \<in> set ?body \<or> c = CHR ''-'' \<or> c = CHR ''+''"
    by (cases ?t) (auto split: if_splits)
  ultimately show ?thesis
    using digit_groups_chars [OF groups] by blast
qed

lemma str_replace_absent:
  assumes "old \<noteq> []" "hd old \<notin> set s"
  shows "str_replace s old new = s"
  using assms
proof (induction s)
  case Nil
  then show ?case
    by (simp add: str_replace.simps)
next
  case (Cons x xs)
  from Cons.prems have "take (length old) (x # xs) \<noteq> old"
    by (cases old) auto
  with Cons show ?case
    by (subst str_replace.simps) simp
qed

lemma str_replace_prefix:
  assumes "old \<noteq> []"
  shows "str_replace (old @ s) old new = new @ str_replace s old new"
  using assms by (subst str_replace.simps) simp

lemma startswith_split: "str_startswith s p \<Longrightarrow> s = p @ drop (length p) s"
  by (metis append_take_drop_id str_startswith_def)

text \<open>
  Where what follows the prefix is a number, replacing every occurrence of the prefix is
  taking the prefix off.
\<close>

lemma replace_is_strip:
  assumes "str_startswith tg ''outletStat''"
    and "py_int (drop (length ''outletStat'') tg) = Inr n"
  shows "str_replace tg ''outletStat'' '''' = drop (length ''outletStat'') tg"
proof -
  let ?r = "drop (length ''outletStat'') tg"
  have "CHR ''o'' \<notin> set ?r"
    using py_int_chars [OF assms(2), of "CHR ''o''"] by (auto simp: is_int_space_def is_decimal_def)
  then have "str_replace ?r ''outletStat'' '''' = ?r"
    by (intro str_replace_absent) auto
  moreover have "tg = ''outletStat'' @ ?r"
    using startswith_split [OF assms(1)] .
  ultimately show ?thesis
    using str_replace_prefix [of "''outletStat''" ?r "''''"] by simp
qed

lemma parse_status_loop_ok:
  assumes "\<forall>e \<in> set es. str_startswith (etag e) ''outletStat'' \<longrightarrow>
      etext e \<noteq> None \<and> (\<exists>n. py_int (drop (length ''outletStat'') (etag e)) = Inr n)"
  shows "\<exists>states. parse_status_loop es acc = Inr states
      \<and> map_of states = map_of acc ++ map_of (rev (status_entries es))
      \<and> (distinct (map fst acc) \<longrightarrow> distinct (map fst states))"
  using assms
proof (induction es arbitrary: acc)
  case Nil
  then show ?case
    by simp
next
  case (Cons e es)
  show ?case
  proof (cases "str_startswith (etag e) ''outletStat''")
    case False
    with Cons show ?thesis
      by simp
  next
    case True
    with Cons.prems obtain t n where t: "etext e = Some t"
      and n: "py_int (drop (length ''outletStat'') (etag e)) = Inr n"
      by auto
    let ?acc = "AList.update n (str_upper (str_strip t)) acc"
    from Cons.IH [of ?acc] Cons.prems obtain states where
      s: "parse_status_loop es ?acc = Inr states"
        "map_of states = map_of ?acc ++ map_of (rev (status_entries es))"
        "distinct (map fst ?acc) \<longrightarrow> distinct (map fst states)"
      by auto
    have r: "str_replace (etag e) ''outletStat'' '''' = drop (length ''outletStat'') (etag e)"
      using replace_is_strip [OF True n] .
    have "parse_status_loop (e # es) acc = Inr states"
      using True t n s(1) by (simp add: r del: length_Cons list.size)
    moreover have "map_of states = map_of acc ++ map_of (rev (status_entries (e # es)))"
      using True t n s(2) by (simp add: update_conv' map_add_upd_left del: length_Cons list.size)
    moreover have "distinct (map fst acc) \<longrightarrow> distinct (map fst states)"
      using s(3) by (simp add: distinct_update)
    ultimately show ?thesis
      by blast
  qed
qed

lemma parse_status_loop_append:
  "parse_status_loop (xs @ ys) acc =
     (case parse_status_loop xs acc of Inl e \<Rightarrow> Inl e | Inr a \<Rightarrow> parse_status_loop ys a)"
  by (induction xs arbitrary: acc) (auto split: sum.splits option.splits)

lemma status_entries_set:
  "(n, s) \<in> set (status_entries es) \<longleftrightarrow>
     (\<exists>e \<in> set es. \<exists>t. str_startswith (etag e) ''outletStat''
        \<and> py_int (drop (length ''outletStat'') (etag e)) = Inr n
        \<and> etext e = Some t \<and> s = str_upper (str_strip t))"
  by (induction es) (auto split: sum.splits option.splits simp del: length_Cons list.size)

text \<open>A document that is not well-formed, and a tag that leaves no number, make the parser fail.\<close>

lemma parse_status_not_well_formed:
  "fromstring xml_text = Inl err \<Longrightarrow> parse_status fromstring xml_text = Inl err"
  by (simp add: parse_status_def)

lemma parse_status_no_number:
  assumes "fromstring xml_text = Inr root"
    and "e \<in> set (children root)"
    and "str_startswith (etag e) ''outletStat''"
    and "py_int (str_replace (etag e) ''outletStat'' '''') = Inl err"
  shows "\<exists>err'. parse_status fromstring xml_text = Inl err'"
proof -
  from assms(2) obtain before after where kids: "children root = before @ e # after"
    by (auto simp: in_set_conv_decomp)
  have here: "parse_status_loop (e # after) acc = Inl err" for acc
    using assms(3,4) by simp
  have "parse_status fromstring xml_text = parse_status_loop (before @ e # after) []"
    using assms(1) kids by (simp add: parse_status_def)
  also have "\<dots> = (case parse_status_loop before [] of Inl e' \<Rightarrow> Inl e' | Inr acc \<Rightarrow> Inl err)"
    unfolding parse_status_loop_append here ..
  finally show ?thesis
    by (auto split: sum.splits)
qed

text \<open>
  C5, as the program has it. Let the document be well-formed, and let every top-level
  element whose tag begins with \<^verbatim>\<open>outletStat\<close> have a \<^verbatim>\<open>text\<close> (the characters
  between its start tag and its first child or its end tag; \<^verbatim>\<open>None\<close> when there are
  none) and, after exactly that prefix, what \<^verbatim>\<open>int()\<close> reads as a number. Then the
  parser returns a mapping: its keys are the numbers of those elements, each once; the state
  of a number is that \<^verbatim>\<open>text\<close> of the last element with the number, trimmed and in
  capitals; an element whose tag lacks the prefix gives no entry.
\<close>

theorem parse_status_entries:
  assumes "fromstring xml_text = Inr root"
    and "\<forall>e \<in> set (children root). str_startswith (etag e) ''outletStat'' \<longrightarrow>
           etext e \<noteq> None \<and> (\<exists>n. py_int (drop (length ''outletStat'') (etag e)) = Inr n)"
  shows "\<exists>states. parse_status fromstring xml_text = Inr states
     \<and> distinct (map fst states)
     \<and> map_of states = map_of (rev (status_entries (children root)))
     \<and> (\<forall>n. n \<in> fst ` set states \<longleftrightarrow>
          (\<exists>e \<in> set (children root). str_startswith (etag e) ''outletStat''
             \<and> py_int (drop (length ''outletStat'') (etag e)) = Inr n))"
proof -
  from parse_status_loop_ok [OF assms(2), of "[]"] obtain states where
    s: "parse_status_loop (children root) [] = Inr states"
      "map_of states = map_of (rev (status_entries (children root)))"
      "distinct (map fst states)"
    by auto
  have "fst ` set states = dom (map_of states)"
    by (simp add: dom_map_of_conv_image_fst)
  also have "\<dots> = fst ` set (status_entries (children root))"
    by (simp add: s(2) dom_map_of_conv_image_fst)
  finally have keys: "fst ` set states = fst ` set (status_entries (children root))" .
  have "n \<in> fst ` set states \<longleftrightarrow>
          (\<exists>e \<in> set (children root). str_startswith (etag e) ''outletStat''
             \<and> py_int (drop (length ''outletStat'') (etag e)) = Inr n)" for n
  proof
    assume "n \<in> fst ` set states"
    with keys obtain s where "(n, s) \<in> set (status_entries (children root))"
      by auto
    then show "\<exists>e \<in> set (children root). str_startswith (etag e) ''outletStat''
             \<and> py_int (drop (length ''outletStat'') (etag e)) = Inr n"
      unfolding status_entries_set by blast
  next
    assume "\<exists>e \<in> set (children root). str_startswith (etag e) ''outletStat''
             \<and> py_int (drop (length ''outletStat'') (etag e)) = Inr n"
    then obtain e where e: "e \<in> set (children root)" "str_startswith (etag e) ''outletStat''"
      "py_int (drop (length ''outletStat'') (etag e)) = Inr n"
      by blast
    with assms(2) obtain t where "etext e = Some t"
      by auto
    with e have "(n, str_upper (str_strip t)) \<in> set (status_entries (children root))"
      unfolding status_entries_set by blast
    then show "n \<in> fst ` set states"
      unfolding keys by force
  qed
  with s assms(1) show ?thesis
    by (simp add: parse_status_def)
qed

lemma py_int_samples:
  "py_int (drop (length ''outletStat'') ''outletStat0'') = Inr 0"
  "py_int (drop (length ''outletStat'') ''outletStat1'') = Inr 1"
  by code_simp+

theorem parse_status_entries_witness:
  "sample_fromstring status_xml = Inr status_root
   \<and> (\<exists>states. parse_status sample_fromstring status_xml = Inr states
         \<and> distinct (map fst states)
         \<and> map_of states = map_of (rev (status_entries (children status_root))))
   \<and> parse_status sample_fromstring status_xml = Inr [(0, ustr ''ON''), (1, ustr ''OFF'')]"
proof -
  have doc: "sample_fromstring status_xml = Inr status_root"
    by (simp add: sample_fromstring_def)
  have ok: "\<forall>e \<in> set (children status_root). str_startswith (etag e) ''outletStat'' \<longrightarrow>
         etext e \<noteq> None \<and> (\<exists>n. py_int (drop (length ''outletStat'') (etag e)) = Inr n)"
    using py_int_samples by (simp add: status_root_def str_startswith_def)
  have val: "parse_status sample_fromstring status_xml = Inr [(0, ustr ''ON''), (1, ustr ''OFF'')]"
    by code_simp
  from parse_status_entries [of sample_fromstring status_xml status_root, OF doc ok] doc val
  show ?thesis
    by blast
qed

text \<open>
  C5, as it is stated, fails: the document below is well-formed and its one element has the
  prefix, yet the parser returns no mapping, because what follows the prefix is not a
  number. Nor does it return one for the document with the empty element.
\<close>

theorem parse_status_counterexample:
  "sample_fromstring word_xml = Inr word_root
   \<and> str_startswith ''outletStatus'' ''outletStat''
   \<and> parse_status sample_fromstring word_xml = Inl (IntValueError ''us'')
   \<and> isl (parse_status sample_fromstring word_xml)
   \<and> sample_fromstring empty_xml = Inr empty_root
   \<and> parse_status sample_fromstring empty_xml = Inl (AttributeError ''strip'')
   \<and> isl (parse_status sample_fromstring empty_xml)"
  by code_simp

text \<open>
  C9. Let a well-formed document have a top-level element whose tag is \<^verbatim>\<open>outletStat\<close>
  followed by a number and whose text is absent (an empty element). Then the parser returns
  no mapping, it fails; and when the elements before that one are read without an error,
  the failure is the \<^verbatim>\<open>AttributeError\<close> of \<^verbatim>\<open>None.strip()\<close>.
\<close>

theorem parse_status_empty_element:
  assumes "fromstring xml_text = Inr root"
    and "children root = before @ e # after"
    and "str_startswith (etag e) ''outletStat''"
    and "py_int (drop (length ''outletStat'') (etag e)) = Inr n"
    and "etext e = None"
  shows "(\<exists>err. parse_status fromstring xml_text = Inl err)
     \<and> (\<forall>acc. parse_status_loop before [] = Inr acc \<longrightarrow>
          parse_status fromstring xml_text = Inl (AttributeError ''strip''))"
proof -
  have r: "str_replace (etag e) ''outletStat'' '''' = drop (length ''outletStat'') (etag e)"
    using replace_is_strip [OF assms(3,4)] .
  have here: "parse_status_loop (e # after) acc = Inl (AttributeError ''strip'')" for acc
    using assms(3,4,5) by (simp add: r del: length_Cons list.size)
  have "parse_status fromstring xml_text = parse_status_loop (before @ e # after) []"
    using assms(1,2) by (simp add: parse_status_def)
  also have "\<dots> = (case parse_status_loop before [] of Inl err \<Rightarrow> Inl err
       | Inr acc \<Rightarrow> Inl (AttributeError ''strip''))"
    unfolding parse_status_loop_append here ..
  finally show ?thesis
    by (auto split: sum.splits)
qed

theorem parse_status_empty_element_witness:
  "sample_fromstring empty_xml = Inr empty_root
   \<and> children empty_root = [Element ''outletStat0'' (Some ''on'') []] @ Element ''outletStat1'' None [] # []
   \<and> str_startswith (etag (Element ''outletStat1'' None [])) ''outletStat''
   \<and> py_int (drop (length ''outletStat'') (etag (Element ''outletStat1'' None []))) = Inr 1
   \<and> etext (Element ''outletStat1'' None []) = None
   \<and> parse_status_loop [Element ''outletStat0'' (Some ''on'') []] [] = Inr [(0, ustr ''ON'')]
   \<and> parse_status sample_fromstring empty_xml = Inl (AttributeError ''strip'')"
proof -
  have doc: "sample_fromstring empty_xml = Inr empty_root"
    by code_simp
  have kids: "children empty_root
      = [Element ''outletStat0'' (Some ''on'') []] @ Element ''outletStat1'' None [] # []"
    by (simp add: empty_root_def)
  have tag: "str_startswith (etag (Element ''outletStat1'' None [])) ''outletStat''"
    by code_simp
  have outlet: "py_int (drop (length ''outletStat'') (etag (Element ''outletStat1'' None []))) = Inr 1"
    by code_simp
  have absent: "etext (Element ''outletStat1'' None []) = None"
    by simp
  have pre: "parse_status_loop [Element ''outletStat0'' (Some ''on'') []] [] = Inr [(0, ustr ''ON'')]"
    by code_simp
  from parse_status_empty_element
    [of sample_fromstring empty_xml empty_root, OF doc kids tag outlet absent] pre
  have "parse_status sample_fromstring empty_xml = Inl (AttributeError ''strip'')"
    by blast
  with doc kids tag outlet absent pre show ?thesis
    by blast
qed

text \<open>
  C6 does not hold of the program. The tag \<^verbatim>\<open>outletStat1outletStat2\<close> begins with the
  prefix, and what is left when the prefix is taken off, \<^verbatim>\<open>1outletStat2\<close>, is not a
  number. The program does not fail: \<^verbatim>\<open>replace\<close> removes the second occurrence of the
  prefix as well, \<^verbatim>\<open>12\<close> is left, and the state is recorded for outlet 12.
\<close>

theorem parse_status_repeated_prefix:
  "sample_fromstring repeated_xml = Inr repeated_root
   \<and> str_startswith ''outletStat1outletStat2'' ''outletStat''
   \<and> drop (length ''outletStat'') ''outletStat1outletStat2'' = ''1outletStat2''
   \<and> isl (py_int ''1outletStat2'')
   \<and> str_replace ''outletStat1outletStat2'' ''outletStat'' '''' = ''12''
   \<and> parse_status sample_fromstring repeated_xml = Inr [(12, ustr ''ON'')]"
  by code_simp


subsection \<open>Outlet names from the control page\<close>

text \<open>The pattern matches a name exactly when the name is \<^verbatim>\<open>outlet\<close> and then digits.\<close>

lemma rx_checkbox_fullmatch_iff:
  "rx_checkbox_fullmatch s =
     (if str_startswith s ''outlet'' \<and> str_isdecimal (outlet_digits s)
      then Some (outlet_digits s) else None)"
proof -
  let ?r = "drop (length ''outlet'') s"
  have "takeWhile is_decimal ?r \<noteq> [] \<and> dropWhile is_decimal ?r = [] \<longleftrightarrow> str_isdecimal ?r"
    by (cases ?r) (auto simp: str_isdecimal_def list_all_iff dropWhile_eq_Nil_conv)
  moreover have "dropWhile is_decimal ?r = [] \<Longrightarrow> takeWhile is_decimal ?r = ?r"
    by (simp add: dropWhile_eq_Nil_conv)
  ultimately show ?thesis
    by (auto simp: rx_checkbox_fullmatch_def outlet_digits_def Let_def
        simp del: length_Cons list.size)
qed

lemma outlet_number_iff:
  "outlet_number nm =
     (if str_startswith nm ''outlet'' \<and> str_isdecimal (outlet_digits nm)
      then Some (digits_value (outlet_digits nm)) else None)"
  by (simp add: outlet_number_def outlet_digits_def)

text \<open>
  One round of the loop: a name that is \<^verbatim>\<open>outlet\<close> and digits is converted, which fails
  when the digits are more than the limit, before the row is looked for.
\<close>

lemma parse_names_loop_step:
  "parse_names_loop ((anc, cb) # rest) acc =
     (case outlet_number (get cb ''name'' '''') of
        None \<Rightarrow> parse_names_loop rest acc
      | Some n \<Rightarrow>
          if int_max_str_digits < length (outlet_digits (get cb ''name'' ''''))
          then Inl (IntValueError (outlet_digits (get cb ''name'' '''')))
          else
            (case find_parent anc ''tr'' of
               None \<Rightarrow> Inl (AttributeError ''find_all'')
             | Some tr \<Rightarrow>
                 (case find_all [] (contents tr) ''td'' [] of
                    [] \<Rightarrow> Inl IndexError
                  | (_, td) # _ \<Rightarrow> parse_names_loop rest (AList.update n (get_text_strip td) acc))))"
  by (simp add: rx_checkbox_fullmatch_iff outlet_number_iff py_int_decimal)


lemma parse_names_loop_append:
  "parse_names_loop (xs @ ys) acc =
     (case parse_names_loop xs acc of Inl e \<Rightarrow> Inl e | Inr a \<Rightarrow> parse_names_loop ys a)"
proof (induction xs arbitrary: acc)
  case Nil
  then show ?case
    by simp
next
  case (Cons b xs)
  obtain anc cb where b: "b = (anc, cb)"
    by (cases b)
  from Cons show ?case
    unfolding b append_Cons parse_names_loop_step
    by (simp split: option.splits list.splits prod.splits)
qed

text \<open>The loop keeps the keys of the dictionary distinct.\<close>

lemma parse_names_loop_distinct:
  "parse_names_loop boxes acc = Inr names \<Longrightarrow> distinct (map fst acc) \<Longrightarrow> distinct (map fst names)"
proof (induction boxes arbitrary: acc)
  case Nil
  then show ?case
    by simp
next
  case (Cons b xs)
  obtain anc cb where b: "b = (anc, cb)"
    by (cases b)
  from Cons.prems show ?case
    unfolding b parse_names_loop_step
    by (auto split: option.splits list.splits prod.splits if_splits intro: Cons.IH
        simp: distinct_update)
qed

lemma parse_names_distinct:
  "parse_names html_parser html = Inr names \<Longrightarrow> distinct (map fst names)"
  using parse_names_loop_distinct [of _ "[]" names] by (simp add: parse_names_def Let_def)









text \<open>
  C10. Let the page have a checkbox whose name is \<^verbatim>\<open>outlet\<close> and digits and which has no
  \<^verbatim>\<open>tr\<close> among its ancestors. Then the parser returns no mapping, partial or other, it
  fails; and when the checkboxes before that one are read without an error, the failure is
  the \<^verbatim>\<open>AttributeError\<close> of \<^verbatim>\<open>None.find_all\<close>, or, for a name of more digits than
  the limit of \<^verbatim>\<open>int()\<close>, the \<^verbatim>\<open>ValueError\<close> of \<^verbatim>\<open>int()\<close>.
\<close>

theorem parse_names_no_row:
  assumes "find_all [] (html_parser html) ''input'' [(''type'', ''checkbox'')] = before @ (anc, cb) # after"
    and "outlet_number (get cb ''name'' '''') = Some n"
    and "find_parent anc ''tr'' = None"
  shows "(\<exists>err. parse_names html_parser html = Inl err)
     \<and> (\<forall>acc. parse_names_loop before [] = Inr acc \<longrightarrow>
          parse_names html_parser html =
            (if length (outlet_digits (get cb ''name'' '''')) \<le> int_max_str_digits
             then Inl (AttributeError ''find_all'')
             else Inl (IntValueError (outlet_digits (get cb ''name'' '''')))))"
proof -
  let ?err = "if length (outlet_digits (get cb ''name'' '''')) \<le> int_max_str_digits
             then AttributeError ''find_all''
             else IntValueError (outlet_digits (get cb ''name'' ''''))"
  have here: "parse_names_loop ((anc, cb) # after) acc = Inl ?err" for acc
    unfolding parse_names_loop_step using assms(2,3) by simp
  have "parse_names html_parser html = parse_names_loop (before @ (anc, cb) # after) []"
    using assms(1) by (simp add: parse_names_def)
  also have "\<dots> = (case parse_names_loop before [] of Inl err \<Rightarrow> Inl err
       | Inr acc \<Rightarrow> Inl ?err)"
    unfolding parse_names_loop_append here ..
  finally show ?thesis
    by (auto split: sum.splits)
qed

theorem parse_names_no_row_witness:
  "find_all [] (sample_html_parser bare_html) ''input'' [(''type'', ''checkbox'')]
     = [] @ (bare_page, Tag ''input'' [(''type'', ''checkbox''), (''name'', ''outlet3'')] []) # []
   \<and> outlet_number (get (Tag ''input'' [(''type'', ''checkbox''), (''name'', ''outlet3'')] []) ''name'' '''') = Some 3
   \<and> find_parent bare_page ''tr'' = None
   \<and> parse_names_loop [] [] = Inr []
   \<and> parse_names sample_html_parser bare_html = Inl (AttributeError ''find_all'')"
proof -
  have boxes: "find_all [] (sample_html_parser bare_html) ''input'' [(''type'', ''checkbox'')]
     = [] @ (bare_page, Tag ''input'' [(''type'', ''checkbox''), (''name'', ''outlet3'')] []) # []"
    by code_simp
  have box: "outlet_number (get (Tag ''input'' [(''type'', ''checkbox''), (''name'', ''outlet3'')] []) ''name'' '''') = Some 3"
    by code_simp
  have row: "find_parent bare_page ''tr'' = None"
    by code_simp
  have start: "parse_names_loop [] [] = Inr []"
    by simp
  have short: "length (outlet_digits ''outlet3'') \<le> int_max_str_digits"
    by code_simp
  from parse_names_no_row [of sample_html_parser bare_html, OF boxes box row] start short
  have "parse_names sample_html_parser bare_html = Inl (AttributeError ''find_all'')"
    by simp
  with boxes box row start show ?thesis
    by blast
qed


subsection \<open>The outlet directory\<close>

lemma directory_rows_ok:
  assumes "set ns \<subseteq> fst ` set names"
  shows "directory_rows names stats ns =
     Inr (map (\<lambda>n. (n, the (map_of names n),
                   (case map_of stats n of None \<Rightarrow> ustr ''(unknown)'' | Some s \<Rightarrow> s))) ns)"
  using assms
proof (induction ns)
  case Nil
  then show ?case
    by simp
next
  case (Cons n ns)
  then have "map_of names n \<noteq> None"
    by (simp add: map_of_eq_None_iff)
  with Cons show ?case
    by auto
qed

text \<open>
  C3. When both documents are fetched and parsed, the directory is built, and: its numbers
  are strictly ascending; they are exactly the keys of the name mapping, one record for each,
  with the name the mapping gives; a number without an entry in the status mapping has the
  state \<^verbatim>\<open>(unknown)\<close>, any other the state the status mapping gives; a number that only
  the status mapping has is in no record.
\<close>

theorem list_outlets_directory:
  assumes "fetch get_url base_url ''control_outlet.htm'' auth timeout = Inr html"
    and "parse_names html_parser html = Inr names"
    and "fetch get_url base_url ''status.xml'' auth timeout = Inr xml"
    and "parse_status fromstring xml = Inr stats"
  shows "\<exists>rows. list_outlets get_url html_parser fromstring base_url auth timeout = Inr rows
     \<and> sorted_wrt (<) (map number rows)
     \<and> number ` set rows = fst ` set names
     \<and> length rows = length names
     \<and> (\<forall>r \<in> set rows. map_of names (number r) = Some (name r))
     \<and> (\<forall>r \<in> set rows. number r \<notin> fst ` set stats \<longrightarrow> state r = ustr ''(unknown)'')
     \<and> (\<forall>r \<in> set rows. \<forall>s. map_of stats (number r) = Some s \<longrightarrow> state r = s)
     \<and> (\<forall>n \<in> fst ` set stats. n \<notin> fst ` set names \<longrightarrow> n \<notin> number ` set rows)"
proof -
  let ?keys = "sort (map fst names)"
  let ?row = "\<lambda>n. (n, the (map_of names n),
                   (case map_of stats n of None \<Rightarrow> ustr ''(unknown)'' | Some s \<Rightarrow> s))"
  let ?rows = "map ?row ?keys"
  have d: "distinct (map fst names)"
    using parse_names_distinct [OF assms(2)] .
  have "directory_rows names stats ?keys = Inr ?rows"
    by (rule directory_rows_ok) simp
  then have res: "list_outlets get_url html_parser fromstring base_url auth timeout = Inr ?rows"
    using assms by (simp add: list_outlets_def)
  have nums: "map number ?rows = ?keys"
    by (simp add: number_def comp_def)
  have "sorted_wrt (<) (map number ?rows)"
    unfolding nums using d by (simp add: strict_sorted_iff)
  moreover have "number ` set ?rows = fst ` set names"
    using nums by (metis list.set_map set_sort)
  moreover have "length ?rows = length names"
    by simp
  moreover have "\<forall>r \<in> set ?rows. map_of names (number r) = Some (name r)"
    by (auto simp: number_def name_def map_of_eq_None_iff)
  moreover have "\<forall>r \<in> set ?rows. number r \<notin> fst ` set stats \<longrightarrow> state r = ustr ''(unknown)''"
    by (auto simp: number_def state_def split: option.splits dest!: map_of_SomeD) force
  moreover have "\<forall>r \<in> set ?rows. \<forall>s. map_of stats (number r) = Some s \<longrightarrow> state r = s"
    by (auto simp: number_def state_def)
  moreover have "\<forall>n \<in> fst ` set stats. n \<notin> fst ` set names \<longrightarrow> n \<notin> number ` set ?rows"
    by (force simp: number_def)
  ultimately show ?thesis
    using res by blast
qed

theorem list_outlets_directory_witness:
  "fetch sample_get ''http://pdu'' ''control_outlet.htm'' (''admin'', ''secret'') 5 = Inr control_html
   \<and> parse_names sample_html_parser control_html = Inr [(3, ''Lamp''), (1, ''Fan'')]
   \<and> fetch sample_get ''http://pdu'' ''status.xml'' (''admin'', ''secret'') 5 = Inr status_xml
   \<and> parse_status sample_fromstring status_xml = Inr [(0, ustr ''ON''), (1, ustr ''OFF'')]
   \<and> (\<exists>rows. list_outlets sample_get sample_html_parser sample_fromstring ''http://pdu'' (''admin'', ''secret'') 5 = Inr rows
         \<and> sorted_wrt (<) (map number rows)
         \<and> number ` set rows = fst ` set [(3::int, ''Lamp''), (1, ''Fan'')]
         \<and> length rows = length [(3::int, ''Lamp''), (1, ''Fan'')])
   \<and> list_outlets sample_get sample_html_parser sample_fromstring ''http://pdu'' (''admin'', ''secret'') 5
       = Inr [(1, ''Fan'', ustr ''OFF''), (3, ''Lamp'', ustr ''(unknown)'')]"
proof -
  have page: "fetch sample_get ''http://pdu'' ''control_outlet.htm'' (''admin'', ''secret'') 5 = Inr control_html"
    by code_simp
  have names: "parse_names sample_html_parser control_html = Inr [(3, ''Lamp''), (1, ''Fan'')]"
    by code_simp
  have status: "fetch sample_get ''http://pdu'' ''status.xml'' (''admin'', ''secret'') 5 = Inr status_xml"
    by code_simp
  have stats: "parse_status sample_fromstring status_xml = Inr [(0, ustr ''ON''), (1, ustr ''OFF'')]"
    by code_simp
  have val: "list_outlets sample_get sample_html_parser sample_fromstring ''http://pdu'' (''admin'', ''secret'') 5
       = Inr [(1, ''Fan'', ustr ''OFF''), (3, ''Lamp'', ustr ''(unknown)'')]"
    by code_simp
  from list_outlets_directory [OF page names status stats]
  have "\<exists>rows. list_outlets sample_get sample_html_parser sample_fromstring ''http://pdu'' (''admin'', ''secret'') 5 = Inr rows
         \<and> sorted_wrt (<) (map number rows)
         \<and> number ` set rows = fst ` set [(3::int, ''Lamp''), (1, ''Fan'')]
         \<and> length rows = length [(3::int, ''Lamp''), (1, ''Fan'')]"
    by (elim exE conjE) (intro exI conjI, assumption+)
  with page names status stats val show ?thesis
    by (intro conjI)
qed

end
